theory Spec2Isabelle
  imports Complex_Main "HOL-Library.Word"
begin

section \<open>Data model of \<^verbatim>\<open>frontend/src/App.jsx\<close>\<close>

text \<open>
  A JavaScript string is a sequence of UTF-16 code units: \<^verbatim>\<open>substring(0, n)\<close> counts code
  units and \<^verbatim>\<open>trim()\<close> removes code units of the ECMAScript white space and line
  terminator classes, all of which lie in the basic plane.
\<close>

type_synonym jsstring = "16 word list"

definition js :: "string \<Rightarrow> jsstring" where
  "js s = map (\<lambda>c. of_nat (of_char c)) s"

definition js_whitespace :: "16 word list" where
  "js_whitespace =
     [0x0009, 0x000A, 0x000B, 0x000C, 0x000D, 0x0020, 0x00A0, 0x1680,
      0x2000, 0x2001, 0x2002, 0x2003, 0x2004, 0x2005, 0x2006, 0x2007,
      0x2008, 0x2009, 0x200A, 0x2028, 0x2029, 0x202F, 0x205F, 0x3000, 0xFEFF]"

definition is_whitespace :: "16 word \<Rightarrow> bool" where
  "is_whitespace c = (c \<in> set js_whitespace)"

definition trim :: "jsstring \<Rightarrow> jsstring" where
  "trim s = rev (dropWhile is_whitespace (rev (dropWhile is_whitespace s)))"

text \<open>\<^verbatim>\<open>s.substring(0, n)\<close> and \<^verbatim>\<open>xs.slice(0, n)\<close> for a literal \<open>n \<ge> 0\<close>.\<close>

definition substring0 :: "nat \<Rightarrow> jsstring \<Rightarrow> jsstring" where
  "substring0 n s = take n s"

definition slice0 :: "nat \<Rightarrow> 'a list \<Rightarrow> 'a list" where
  "slice0 n xs = take n xs"

text \<open>
  The draft is the object held in \<^verbatim>\<open>currentNote\<close>: every place that builds it (the
  \<^verbatim>\<open>useState\<close> initialiser, \<^verbatim>\<open>openModal\<close>, \<^verbatim>\<open>closeModal\<close>) writes exactly these five
  keys, and the \<^verbatim>\<open>onChange\<close> handlers spread it and overwrite one of them. A note as the
  server returns it has the same five keys and three more. \<^verbatim>\<open>tags\<close> is optional on the
  server side, so it may be \<^verbatim>\<open>null\<close>.
\<close>

record Draft =
  title :: jsstring
  content :: jsstring
  is_public :: bool
  tags :: "jsstring option"
  version :: int

record Note = Draft +
  note_id :: nat
  view_count :: int
  updated_at :: jsstring

record SearchResult =
  "note" :: Note
  relevance_score :: real
  matched_chunks :: "jsstring list"

text \<open>
  The \<^verbatim>\<open>useState\<close> cells of \<^verbatim>\<open>App\<close> that the note and search handlers read or write. The
  two cells of the analytics panel (\<^verbatim>\<open>analytics\<close>, \<^verbatim>\<open>showAnalytics\<close>) are read and written
  by \<^verbatim>\<open>fetchAnalytics\<close> and the panel's toggle only.
\<close>

record AppState =
  "notes" :: "Note list"
  loading :: bool
  isModalOpen :: bool
  editingNote :: "Note option"
  searchQuery :: jsstring
  searchType :: jsstring
  searchResults :: "SearchResult list"
  isSearching :: bool
  currentNote :: Draft

definition initial_state :: AppState where
  "initial_state =
     \<lparr>notes = [], loading = False, isModalOpen = False, editingNote = None,
      searchQuery = [], searchType = js ''keyword'', searchResults = [],
      isSearching = False,
      currentNote = \<lparr>title = [], content = [], is_public = False, tags = Some [], version = 1\<rparr>\<rparr>"

subsection \<open>Requests, responses and other observable effects\<close>

datatype http_method = GET | POST | PUT | DELETE

datatype endpoint =
    NotesList nat
  | NotesCollection
  | NoteItem nat
  | SearchEndpoint

datatype json = JString jsstring | JNumber int | JBool bool | JNull

type_synonym json_object = "(string \<times> json) list"

datatype effect =
    Fetch http_method endpoint "json_object option"
  | Alert string
  | Confirm string
  | ConsoleError string

text \<open>
  What an awaited \<^verbatim>\<open>fetch\<close> settles to: the promise rejects (network failure), or it
  fulfils with a response of some status. \<open>json_body\<close> is what \<^verbatim>\<open>await response.json()\<close>
  gives, \<open>None\<close> when it throws; the body is taken to have the shape of the backend
  interface (a note list for \<^verbatim>\<open>GET /notes\<close>, the \<^verbatim>\<open>results\<close> list for \<^verbatim>\<open>POST /search\<close>).
\<close>

datatype 'a response = Response (status: nat) (json_body: "'a option")

datatype 'a settled = Rejected | Fulfilled "'a response"

definition ok :: "'a response \<Rightarrow> bool" where
  "ok r = (200 \<le> status r \<and> status r \<le> 299)"

definition json_of_tags :: "jsstring option \<Rightarrow> json" where
  "json_of_tags t = (case t of None \<Rightarrow> JNull | Some s \<Rightarrow> JString s)"

text \<open>\<^verbatim>\<open>JSON.stringify(currentNote)\<close>: the keys of the draft in insertion order.\<close>

definition stringify_currentNote :: "Draft \<Rightarrow> json_object" where
  "stringify_currentNote d =
     [(''title'', JString (title d)),
      (''content'', JString (content d)),
      (''is_public'', JBool (is_public d)),
      (''tags'', json_of_tags (tags d)),
      (''version'', JNumber (version d))]"

section \<open>The handlers\<close>

text \<open>
  An \<^verbatim>\<open>async\<close> handler is cut at each \<^verbatim>\<open>await fetch\<close>: the part before it maps the state to
  a new state and the effects it causes, and the part after it does the same from the
  state found when the fetch settles and from what it settled to. The parts after an
  \<^verbatim>\<open>await\<close> read no state cell, they only call setters, so a state transformer is exact.
\<close>

definition fetchNotes :: "AppState \<Rightarrow> AppState \<times> effect list" where
  "fetchNotes st = (st\<lparr>loading := True\<rparr>, [Fetch GET (NotesList 50) None])"

definition fetchNotes_settled :: "AppState \<Rightarrow> Note list settled \<Rightarrow> AppState \<times> effect list" where
  "fetchNotes_settled st outcome =
     (case outcome of
        Rejected \<Rightarrow> (st\<lparr>loading := False\<rparr>, [ConsoleError ''Failed to fetch notes:''])
      | Fulfilled r \<Rightarrow>
          if ok r then
            (case json_body r of
               None \<Rightarrow> (st\<lparr>loading := False\<rparr>, [ConsoleError ''Failed to fetch notes:''])
             | Some data \<Rightarrow> (st\<lparr>notes := data, loading := False\<rparr>, []))
          else (st\<lparr>loading := False\<rparr>, []))"

definition handleSearch :: "AppState \<Rightarrow> AppState \<times> effect list" where
  "handleSearch st =
     (if trim (searchQuery st) = [] then (st\<lparr>searchResults := []\<rparr>, [])
      else
        (st\<lparr>isSearching := True\<rparr>,
         [Fetch POST SearchEndpoint
            (Some [(''query'', JString (searchQuery st)),
                   (''search_type'', JString (searchType st)),
                   (''limit'', JNumber 10),
                   (''include_content'', JBool True)])]))"

definition handleSearch_settled ::
  "AppState \<Rightarrow> SearchResult list settled \<Rightarrow> AppState \<times> effect list" where
  "handleSearch_settled st outcome =
     (case outcome of
        Rejected \<Rightarrow> (st\<lparr>isSearching := False\<rparr>, [ConsoleError ''Search failed:''])
      | Fulfilled r \<Rightarrow>
          if ok r then
            (case json_body r of
               None \<Rightarrow> (st\<lparr>isSearching := False\<rparr>, [ConsoleError ''Search failed:''])
             | Some results \<Rightarrow> (st\<lparr>searchResults := results, isSearching := False\<rparr>, []))
          else (st\<lparr>isSearching := False\<rparr>, []))"

definition openModal :: "Note option \<Rightarrow> AppState \<Rightarrow> AppState" where
  "openModal arg st =
     (case arg of
        Some n \<Rightarrow>
          st\<lparr>editingNote := Some n,
             currentNote := \<lparr>title = title n, content = content n, is_public = is_public n,
                             tags = tags n, version = version n\<rparr>,
             isModalOpen := True\<rparr>
      | None \<Rightarrow>
          st\<lparr>editingNote := None,
             currentNote := \<lparr>title = [], content = [], is_public = False,
                             tags = Some [], version = 1\<rparr>,
             isModalOpen := True\<rparr>)"

definition closeModal :: "AppState \<Rightarrow> AppState" where
  "closeModal st =
     st\<lparr>isModalOpen := False,
        editingNote := None,
        currentNote := \<lparr>title = [], content = [], is_public = False,
                        tags = Some [], version = 1\<rparr>\<rparr>"

definition saveNote :: "AppState \<Rightarrow> AppState \<times> effect list" where
  "saveNote st =
     (if trim (title (currentNote st)) = [] \<or> trim (content (currentNote st)) = [] then
        (st, [Alert ''Please fill in both title and content''])
      else
        (case editingNote st of
           Some n \<Rightarrow>
             (st\<lparr>loading := True\<rparr>,
              [Fetch PUT (NoteItem (note_id n)) (Some (stringify_currentNote (currentNote st)))])
         | None \<Rightarrow>
             (st\<lparr>loading := True\<rparr>,
              [Fetch POST NotesCollection
                 (Some [(''title'', JString (title (currentNote st))),
                        (''content'', JString (content (currentNote st))),
                        (''is_public'', JBool (is_public (currentNote st))),
                        (''tags'', json_of_tags (tags (currentNote st)))])])))"

text \<open>
  After the save request settles. On a 2xx status the handler calls \<^verbatim>\<open>fetchNotes()\<close> and
  waits for it; the rest of the handler is \<open>saveNote_refreshed\<close>. The response body of
  the save request is never read.
\<close>

definition saveNote_settled :: "AppState \<Rightarrow> 'a settled \<Rightarrow> AppState \<times> effect list" where
  "saveNote_settled st outcome =
     (case outcome of
        Rejected \<Rightarrow> (st\<lparr>loading := False\<rparr>, [ConsoleError ''Failed to save note:''])
      | Fulfilled r \<Rightarrow>
          if ok r then fetchNotes st
          else if status r = 409 then
            (st\<lparr>loading := False\<rparr>,
             [Alert ''Note was modified by another user. Please refresh and try again.''])
          else (st\<lparr>loading := False\<rparr>, []))"

text \<open>
  \<^verbatim>\<open>fetchNotes\<close> catches its own failures, so \<^verbatim>\<open>closeModal()\<close> and the final
  \<^verbatim>\<open>setLoading(false)\<close> run whatever the list request settled to.
\<close>

definition saveNote_refreshed :: "AppState \<Rightarrow> Note list settled \<Rightarrow> AppState \<times> effect list" where
  "saveNote_refreshed st outcome =
     (case fetchNotes_settled st outcome of
        (st', effs) \<Rightarrow> ((closeModal st')\<lparr>loading := False\<rparr>, effs))"

text \<open>\<open>confirmed\<close> is the user's answer to the \<^verbatim>\<open>confirm\<close> dialog.\<close>

definition deleteNote :: "nat \<Rightarrow> bool \<Rightarrow> AppState \<Rightarrow> AppState \<times> effect list" where
  "deleteNote i confirmed st =
     (if \<not> confirmed then (st, [Confirm ''Are you sure you want to delete this note?''])
      else (st, [Confirm ''Are you sure you want to delete this note?'',
                 Fetch DELETE (NoteItem i) None]))"

definition deleteNote_settled :: "AppState \<Rightarrow> 'a settled \<Rightarrow> AppState \<times> effect list" where
  "deleteNote_settled st outcome =
     (case outcome of
        Rejected \<Rightarrow> (st, [ConsoleError ''Failed to delete note:''])
      | Fulfilled r \<Rightarrow> if ok r then fetchNotes st else (st, []))"

definition deleteNote_refreshed :: "AppState \<Rightarrow> Note list settled \<Rightarrow> AppState \<times> effect list" where
  "deleteNote_refreshed st outcome = fetchNotes_settled st outcome"

subsection \<open>Rendering of a search result's excerpts\<close>

text \<open>
  \<^verbatim>\<open>"{chunk.substring(0, 100)}..."\<close>: an opening quote, the first 100 code units of the
  chunk, three dots and a closing quote, whatever the length of the chunk.
\<close>

definition render_chunk :: "jsstring \<Rightarrow> jsstring" where
  "render_chunk chunk = js [CHR 0x22] @ substring0 100 chunk @ js ''...'' @ js [CHR 0x22]"

text \<open>
  The block under \<^verbatim>\<open>Relevant excerpts:\<close>, rendered only when there is a chunk: \<open>None\<close>
  when the block is absent, otherwise the text of its rows in order.
\<close>

definition render_excerpts :: "SearchResult \<Rightarrow> jsstring list option" where
  "render_excerpts result =
     (if length (matched_chunks result) > 0
      then Some (map render_chunk (slice0 2 (matched_chunks result)))
      else None)"

section \<open>The event loop\<close>

text \<open>
  The user interface events the component reacts to, and the delivery of what a pending
  \<^verbatim>\<open>fetch\<close> settles to. \<^verbatim>\<open>fetch\<close> offers no cancellation and the handlers keep no
  handle on a request, so every request stays pending until it is delivered, in any
  order.
\<close>

datatype continuation =
    K_fetchNotes
  | K_handleSearch
  | K_saveNote
  | K_saveNote_refresh
  | K_deleteNote
  | K_deleteNote_refresh

datatype reply =
    NotesReply "Note list settled"
  | SearchReply "SearchResult list settled"
  | PlainReply "unit settled"

datatype event =
    Mount
  | ChangeSearchQuery jsstring
  | ChangeSearchType jsstring
  | KeyPressEnter
  | ClickSearch
  | ClickNewNote
  | ClickEdit Note
  | ClickClose
  | ChangeTitle jsstring
  | ChangeTags jsstring
  | ChangeContent jsstring
  | ChangeIsPublic bool
  | ClickSave
  | ClickDelete nat bool
  | Deliver nat reply

record World =
  app :: AppState
  pending :: "(continuation \<times> effect) list"
  log :: "effect list"

definition initial_world :: World where
  "initial_world = \<lparr>app = initial_state, pending = [], log = []\<rparr>"

fun is_Fetch :: "effect \<Rightarrow> bool" where
  "is_Fetch (Fetch m e b) = True"
| "is_Fetch _ = False"

text \<open>
  \<open>perform k res w\<close> installs the outcome of a handler part: the new state, its effects
  appended to the log, and each request it started made pending with the handler part
  \<open>k\<close> that awaits it.
\<close>

definition perform :: "continuation \<Rightarrow> AppState \<times> effect list \<Rightarrow> World \<Rightarrow> World" where
  "perform k res w =
     w\<lparr>app := fst res,
       pending := pending w @ map (Pair k) (filter is_Fetch (snd res)),
       log := log w @ snd res\<rparr>"

text \<open>
  The handler part that awaits a pending request, run on what the request settled to,
  with the part that awaits the request it may start in turn.
\<close>

fun resume :: "continuation \<Rightarrow> reply \<Rightarrow> AppState
    \<Rightarrow> (continuation \<times> AppState \<times> effect list) option" where
  "resume K_fetchNotes (NotesReply outcome) st = Some (K_fetchNotes, fetchNotes_settled st outcome)"
| "resume K_handleSearch (SearchReply outcome) st =
     Some (K_handleSearch, handleSearch_settled st outcome)"
| "resume K_saveNote (PlainReply outcome) st = Some (K_saveNote_refresh, saveNote_settled st outcome)"
| "resume K_saveNote_refresh (NotesReply outcome) st =
     Some (K_saveNote_refresh, saveNote_refreshed st outcome)"
| "resume K_deleteNote (PlainReply outcome) st =
     Some (K_deleteNote_refresh, deleteNote_settled st outcome)"
| "resume K_deleteNote_refresh (NotesReply outcome) st =
     Some (K_deleteNote_refresh, deleteNote_refreshed st outcome)"
| "resume _ _ _ = None"

text \<open>The notes that have an edit and a delete button: the grid and the search results.\<close>

definition rendered_notes :: "AppState \<Rightarrow> Note list" where
  "rendered_notes st = map note (searchResults st) @ notes st"

text \<open>
  The guards are those of the markup: the search button is \<^verbatim>\<open>disabled={isSearching}\<close>
  (the Enter key of the search box has no such guard), the save button is
  \<^verbatim>\<open>disabled={loading}\<close>, and the modal with its inputs and buttons is rendered only when
  \<^verbatim>\<open>isModalOpen\<close>.
\<close>

fun step :: "World \<Rightarrow> event \<Rightarrow> World" where
  "step w Mount = perform K_fetchNotes (fetchNotes (app w)) w"
| "step w (ChangeSearchQuery q) = w\<lparr>app := (app w)\<lparr>searchQuery := q\<rparr>\<rparr>"
| "step w (ChangeSearchType t) = w\<lparr>app := (app w)\<lparr>searchType := t\<rparr>\<rparr>"
| "step w KeyPressEnter = perform K_handleSearch (handleSearch (app w)) w"
| "step w ClickSearch =
     (if isSearching (app w) then w else perform K_handleSearch (handleSearch (app w)) w)"
| "step w ClickNewNote = w\<lparr>app := openModal None (app w)\<rparr>"
| "step w (ClickEdit n) =
     (if n \<in> set (rendered_notes (app w)) then w\<lparr>app := openModal (Some n) (app w)\<rparr> else w)"
| "step w ClickClose = (if isModalOpen (app w) then w\<lparr>app := closeModal (app w)\<rparr> else w)"
| "step w (ChangeTitle v) =
     (if isModalOpen (app w)
      then w\<lparr>app := (app w)\<lparr>currentNote := (currentNote (app w))\<lparr>title := v\<rparr>\<rparr>\<rparr> else w)"
| "step w (ChangeTags v) =
     (if isModalOpen (app w)
      then w\<lparr>app := (app w)\<lparr>currentNote := (currentNote (app w))\<lparr>tags := Some v\<rparr>\<rparr>\<rparr> else w)"
| "step w (ChangeContent v) =
     (if isModalOpen (app w)
      then w\<lparr>app := (app w)\<lparr>currentNote := (currentNote (app w))\<lparr>content := v\<rparr>\<rparr>\<rparr> else w)"
| "step w (ChangeIsPublic v) =
     (if isModalOpen (app w)
      then w\<lparr>app := (app w)\<lparr>currentNote := (currentNote (app w))\<lparr>is_public := v\<rparr>\<rparr>\<rparr> else w)"
| "step w ClickSave =
     (if isModalOpen (app w) \<and> \<not> loading (app w)
      then perform K_saveNote (saveNote (app w)) w else w)"
| "step w (ClickDelete i confirmed) =
     (if i \<in> note_id ` set (rendered_notes (app w))
      then perform K_deleteNote (deleteNote i confirmed (app w)) w else w)"
| "step w (Deliver i r) =
     (if i < length (pending w) then
        (case resume (fst (pending w ! i)) r (app w) of
           None \<Rightarrow> w
         | Some (k, res) \<Rightarrow>
             perform k res (w\<lparr>pending := take i (pending w) @ drop (Suc i) (pending w)\<rparr>))
      else w)"

definition run :: "World \<Rightarrow> event list \<Rightarrow> World" where
  "run w evs = foldl step w evs"

section \<open>Predicates and sample inputs of the statements\<close>

text \<open>A request that failed: the promise rejected, or the status is outside 200..299.\<close>

fun failed :: "'a settled \<Rightarrow> bool" where
  "failed Rejected = True"
| "failed (Fulfilled r) = (\<not> ok r)"

text \<open>A transport error: a network failure, or a non-2xx status other than 409.\<close>

fun transport_error :: "'a settled \<Rightarrow> bool" where
  "transport_error Rejected = True"
| "transport_error (Fulfilled r) = (\<not> ok r \<and> status r \<noteq> 409)"

text \<open>The list that a list request delivered, if it delivered one.\<close>

definition fetched_list :: "Note list settled \<Rightarrow> Note list option" where
  "fetched_list outcome =
     (case outcome of Rejected \<Rightarrow> None | Fulfilled r \<Rightarrow> if ok r then json_body r else None)"

text \<open>
  What the request bodies have in common: no key \<^verbatim>\<open>view_count\<close>, and the four keys of a
  create request.
\<close>

fun body_ok :: "effect \<Rightarrow> bool" where
  "body_ok (Fetch m e (Some b)) =
     (''view_count'' \<notin> fst ` set b
      \<and> (m = POST \<and> e = NotesCollection
           \<longrightarrow> map fst b = [''title'', ''content'', ''is_public'', ''tags'']))"
| "body_ok _ = True"

text \<open>While a note is being edited, the draft carries the version of the opened snapshot.\<close>

definition version_pinned :: "AppState \<Rightarrow> bool" where
  "version_pinned st =
     (editingNote st = None
      \<or> map_option version (editingNote st) = Some (version (currentNote st)))"

text \<open>The events that call \<^verbatim>\<open>openModal\<close>: the buttons for a new note and for editing a note.\<close>

fun opens_modal :: "event \<Rightarrow> bool" where
  "opens_modal ClickNewNote = True"
| "opens_modal (ClickEdit n) = True"
| "opens_modal _ = False"

text \<open>
  The edit session opened on the snapshot \<open>n\<close>: it is over, or \<^verbatim>\<open>editingNote\<close> still holds
  \<open>n\<close> itself and the draft still carries the version of \<open>n\<close>.
\<close>

definition session_of :: "Note \<Rightarrow> AppState \<Rightarrow> bool" where
  "session_of n st =
     (editingNote st = None
      \<or> (editingNote st = Some n \<and> version (currentNote st) = version n))"

definition sample_note :: Note where
  "sample_note =
     \<lparr>title = js ''Plan'', content = js ''Buy milk'', is_public = False,
      tags = Some (js ''home''), version = 3,
      note_id = 7, view_count = 12, updated_at = js ''2024-01-01T00:00:00''\<rparr>"

definition other_note :: Note where
  "other_note =
     \<lparr>title = js ''Tea'', content = js ''milk tea recipe'', is_public = True,
      tags = None, version = 1,
      note_id = 9, view_count = 0, updated_at = js ''2024-02-02T00:00:00''\<rparr>"

text \<open>The same note as the server holds it after somebody else's update.\<close>

definition newer_note :: Note where
  "newer_note = sample_note\<lparr>version := 4, view_count := 13\<rparr>"

definition sample_result :: SearchResult where
  "sample_result =
     \<lparr>note = sample_note, relevance_score = 3 / 4,
      matched_chunks = [js ''Buy milk'', js ''milk and eggs'', js ''c'', js ''d'', js ''e'']\<rparr>"

text \<open>An edit session on \<open>sample_note\<close> with a changed draft, while the save is in flight.\<close>

definition editing_state :: AppState where
  "editing_state =
     (openModal (Some sample_note) (initial_state\<lparr>notes := [sample_note]\<rparr>))
       \<lparr>currentNote := \<lparr>title = js ''Plan B'', content = js ''Buy oat milk'', is_public = True,
                       tags = Some (js ''home''), version = 3\<rparr>, loading := True\<rparr>"

text \<open>A create session with a title of two spaces.\<close>

definition blank_title_state :: AppState where
  "blank_title_state =
     (openModal None initial_state)
       \<lparr>currentNote := \<lparr>title = js ''  '', content = js ''body'', is_public = False,
                       tags = Some [], version = 1\<rparr>\<rparr>"

definition create_state :: AppState where
  "create_state =
     (openModal None initial_state)
       \<lparr>currentNote := \<lparr>title = js ''Plan'', content = js ''Buy milk'', is_public = False,
                       tags = Some [], version = 1\<rparr>\<rparr>"

definition blank_query_state :: AppState where
  "blank_query_state =
     initial_state\<lparr>searchQuery := js ''   '', searchResults := [sample_result]\<rparr>"

definition query_state :: AppState where
  "query_state = initial_state\<lparr>searchQuery := js ''milk'', searchResults := [sample_result]\<rparr>"

text \<open>
  A note is created, the list is reloaded and holds \<open>sample_note\<close>, which is then opened,
  retitled and saved.
\<close>

definition session_events :: "event list" where
  "session_events =
     [ClickNewNote, ChangeTitle (js ''Plan''), ChangeContent (js ''Buy milk''), ClickSave,
      Deliver 0 (PlainReply (Fulfilled (Response 201 None))),
      Deliver 0 (NotesReply (Fulfilled (Response 200 (Some [sample_note])))),
      ClickEdit sample_note, ChangeTitle (js ''Plan B''), ClickSave]"

text \<open>
  While a note is being edited its title is changed and the list is reloaded; the reloaded
  list holds the note at a newer version.
\<close>

definition refresh_during_edit :: "event list" where
  "refresh_during_edit =
     [ChangeTitle (js ''Plan B''), Mount,
      Deliver 0 (NotesReply (Fulfilled (Response 200 (Some [newer_note]))))]"

definition create_body :: json_object where
  "create_body =
     [(''title'', JString (js ''Plan'')), (''content'', JString (js ''Buy milk'')),
      (''is_public'', JBool False), (''tags'', JString [])]"

definition update_body :: json_object where
  "update_body =
     [(''title'', JString (js ''Plan B'')), (''content'', JString (js ''Buy milk'')),
      (''is_public'', JBool False), (''tags'', JString (js ''home'')),
      (''version'', JNumber 3)]"

definition milk_results :: "SearchResult list" where
  "milk_results = [sample_result]"

definition tea_results :: "SearchResult list" where
  "tea_results = [\<lparr>note = other_note, relevance_score = 1 / 2, matched_chunks = []\<rparr>]"

definition search_body :: "jsstring \<Rightarrow> json_object" where
  "search_body q =
     [(''query'', JString q), (''search_type'', JString (js ''keyword'')),
      (''limit'', JNumber 10), (''include_content'', JBool True)]"

text \<open>Two searches started with the Enter key, the second while the first is in flight.\<close>

definition overlapping_searches :: "event list" where
  "overlapping_searches =
     [ChangeSearchQuery (js ''milk''), KeyPressEnter,
      ChangeSearchQuery (js ''milk tea''), KeyPressEnter]"

section \<open>Auxiliary facts\<close>

lemma trim_Nil_iff: "trim s = [] \<longleftrightarrow> (\<forall>c \<in> set s. is_whitespace c)"
proof
  assume "trim s = []"
  then have "dropWhile is_whitespace (rev (dropWhile is_whitespace s)) = []"
    by (simp add: trim_def)
  then have all: "\<forall>c \<in> set (dropWhile is_whitespace s). is_whitespace c"
    by simp
  have "dropWhile is_whitespace s = []"
  proof (rule ccontr)
    assume ne: "dropWhile is_whitespace s \<noteq> []"
    then have "\<not> is_whitespace (hd (dropWhile is_whitespace s))"
      by (rule hd_dropWhile)
    moreover have "hd (dropWhile is_whitespace s) \<in> set (dropWhile is_whitespace s)"
      using ne by simp
    ultimately show False using all by blast
  qed
  then show "\<forall>c \<in> set s. is_whitespace c"
    by simp
next
  assume "\<forall>c \<in> set s. is_whitespace c"
  then show "trim s = []"
    by (auto simp: trim_def dest: set_dropWhileD)
qed

lemma not_blank_samples:
  "trim (js ''Plan'') \<noteq> []" "trim (js ''Buy milk'') \<noteq> []" "trim (js ''Plan B'') \<noteq> []"
  "trim (js ''milk'') \<noteq> []" "trim (js ''milk tea'') \<noteq> []"
  by (simp_all add: js_def trim_def is_whitespace_def js_whitespace_def)

subsection \<open>Every handler part sends well-formed bodies\<close>

lemma body_ok_fetchNotes: "\<forall>e \<in> set (snd (fetchNotes st)). body_ok e"
  by (simp add: fetchNotes_def)

lemma body_ok_fetchNotes_settled: "\<forall>e \<in> set (snd (fetchNotes_settled st outcome)). body_ok e"
  by (simp add: fetchNotes_settled_def split: settled.splits option.splits)

lemma body_ok_handleSearch: "\<forall>e \<in> set (snd (handleSearch st)). body_ok e"
  by (simp add: handleSearch_def)

lemma body_ok_handleSearch_settled: "\<forall>e \<in> set (snd (handleSearch_settled st outcome)). body_ok e"
  by (simp add: handleSearch_settled_def split: settled.splits option.splits)

lemma body_ok_saveNote: "\<forall>e \<in> set (snd (saveNote st)). body_ok e"
  by (simp add: saveNote_def stringify_currentNote_def split: option.splits)

lemma body_ok_saveNote_settled: "\<forall>e \<in> set (snd (saveNote_settled st outcome)). body_ok e"
  by (simp add: saveNote_settled_def fetchNotes_def split: settled.splits)

lemma body_ok_saveNote_refreshed: "\<forall>e \<in> set (snd (saveNote_refreshed st outcome)). body_ok e"
  using body_ok_fetchNotes_settled [of st outcome]
  by (simp add: saveNote_refreshed_def split: prod.splits)

lemma body_ok_deleteNote: "\<forall>e \<in> set (snd (deleteNote i c st)). body_ok e"
  by (simp add: deleteNote_def)

lemma body_ok_deleteNote_settled: "\<forall>e \<in> set (snd (deleteNote_settled st outcome)). body_ok e"
  by (simp add: deleteNote_settled_def fetchNotes_def split: settled.splits)

lemma body_ok_deleteNote_refreshed: "\<forall>e \<in> set (snd (deleteNote_refreshed st outcome)). body_ok e"
  by (simp add: deleteNote_refreshed_def body_ok_fetchNotes_settled)

lemmas body_ok_handlers =
  body_ok_fetchNotes body_ok_fetchNotes_settled body_ok_handleSearch
  body_ok_handleSearch_settled body_ok_saveNote body_ok_saveNote_settled
  body_ok_saveNote_refreshed body_ok_deleteNote body_ok_deleteNote_settled
  body_ok_deleteNote_refreshed

lemma body_ok_resume:
  assumes "resume k r st = Some (k', res)"
  shows "\<forall>e \<in> set (snd res). body_ok e"
  using assms by (cases k; cases r) (auto simp: body_ok_handlers)

lemma log_perform: "log (perform k res w) = log w @ snd res"
  by (simp add: perform_def)

lemma app_perform: "app (perform k res w) = fst res"
  by (simp add: perform_def)

lemma body_ok_step:
  assumes "\<forall>e \<in> set (log w). body_ok e"
  shows "\<forall>e \<in> set (log (step w ev)). body_ok e"
proof (cases ev)
  case (Deliver i r)
  show ?thesis
  proof (cases "i < length (pending w)")
    case False
    with Deliver assms show ?thesis by simp
  next
    case True
    show ?thesis
    proof (cases "resume (fst (pending w ! i)) r (app w)")
      case None
      with Deliver True assms show ?thesis by simp
    next
      case (Some kr)
      obtain k' res where kr: "kr = (k', res)" by (cases kr)
      from Some kr have "\<forall>e \<in> set (snd res). body_ok e" by (auto dest: body_ok_resume)
      with Deliver True Some kr assms show ?thesis by (auto simp: log_perform)
    qed
  qed
qed (use assms in \<open>auto simp: log_perform body_ok_handlers\<close>)

subsection \<open>Every handler part keeps the draft's version pinned\<close>

lemma pinned_fetchNotes: "version_pinned st \<Longrightarrow> version_pinned (fst (fetchNotes st))"
  by (simp add: fetchNotes_def version_pinned_def)

lemma pinned_fetchNotes_settled:
  "version_pinned st \<Longrightarrow> version_pinned (fst (fetchNotes_settled st outcome))"
  by (simp add: fetchNotes_settled_def version_pinned_def split: settled.splits option.splits)

lemma pinned_handleSearch: "version_pinned st \<Longrightarrow> version_pinned (fst (handleSearch st))"
  by (simp add: handleSearch_def version_pinned_def)

lemma pinned_handleSearch_settled:
  "version_pinned st \<Longrightarrow> version_pinned (fst (handleSearch_settled st outcome))"
  by (simp add: handleSearch_settled_def version_pinned_def split: settled.splits option.splits)

lemma pinned_saveNote: "version_pinned st \<Longrightarrow> version_pinned (fst (saveNote st))"
  by (auto simp: saveNote_def version_pinned_def split: option.splits)

lemma pinned_saveNote_settled:
  "version_pinned st \<Longrightarrow> version_pinned (fst (saveNote_settled st outcome))"
  by (simp add: saveNote_settled_def fetchNotes_def version_pinned_def split: settled.splits)

lemma pinned_saveNote_refreshed: "version_pinned (fst (saveNote_refreshed st outcome))"
  by (simp add: saveNote_refreshed_def closeModal_def version_pinned_def split: prod.splits)

lemma pinned_deleteNote: "version_pinned st \<Longrightarrow> version_pinned (fst (deleteNote i c st))"
  by (simp add: deleteNote_def)

lemma pinned_deleteNote_settled:
  "version_pinned st \<Longrightarrow> version_pinned (fst (deleteNote_settled st outcome))"
  by (simp add: deleteNote_settled_def fetchNotes_def version_pinned_def split: settled.splits)

lemma pinned_deleteNote_refreshed:
  "version_pinned st \<Longrightarrow> version_pinned (fst (deleteNote_refreshed st outcome))"
  by (simp add: deleteNote_refreshed_def pinned_fetchNotes_settled)

lemma pinned_openModal: "version_pinned (openModal arg st)"
  by (simp add: openModal_def version_pinned_def split: option.splits)

lemma pinned_closeModal: "version_pinned (closeModal st)"
  by (simp add: closeModal_def version_pinned_def)

lemmas pinned_handlers =
  pinned_fetchNotes pinned_fetchNotes_settled pinned_handleSearch pinned_handleSearch_settled
  pinned_saveNote pinned_saveNote_settled pinned_saveNote_refreshed pinned_deleteNote
  pinned_deleteNote_settled pinned_deleteNote_refreshed pinned_openModal pinned_closeModal

lemma pinned_resume:
  assumes "resume k r st = Some (k', res)" and "version_pinned st"
  shows "version_pinned (fst res)"
  using assms by (cases k; cases r) (auto simp: pinned_handlers)

lemma pinned_step:
  assumes "version_pinned (app w)"
  shows "version_pinned (app (step w ev))"
proof (cases ev)
  case (Deliver i r)
  show ?thesis
  proof (cases "i < length (pending w)")
    case False
    with Deliver assms show ?thesis by simp
  next
    case True
    show ?thesis
    proof (cases "resume (fst (pending w ! i)) r (app w)")
      case None
      with Deliver True assms show ?thesis by simp
    next
      case (Some kr)
      obtain k' res where kr: "kr = (k', res)" by (cases kr)
      from Some kr assms have "version_pinned (fst res)" by (auto dest: pinned_resume)
      with Deliver True Some kr show ?thesis by (simp add: app_perform)
    qed
  qed
next
  case (ChangeTitle v)
  with assms show ?thesis by (simp add: version_pinned_def)
next
  case (ChangeTags v)
  with assms show ?thesis by (simp add: version_pinned_def)
next
  case (ChangeContent v)
  with assms show ?thesis by (simp add: version_pinned_def)
next
  case (ChangeIsPublic v)
  with assms show ?thesis by (simp add: version_pinned_def)
next
  case (ChangeSearchQuery v)
  with assms show ?thesis by (simp add: version_pinned_def)
next
  case (ChangeSearchType v)
  with assms show ?thesis by (simp add: version_pinned_def)
qed (use assms in \<open>auto simp: app_perform pinned_handlers\<close>)

subsection \<open>No handler part but \<^verbatim>\<open>openModal\<close> replaces the snapshot or the draft's version\<close>

lemma session_fetchNotes: "session_of n st \<Longrightarrow> session_of n (fst (fetchNotes st))"
  by (simp add: fetchNotes_def session_of_def)

lemma session_fetchNotes_settled:
  "session_of n st \<Longrightarrow> session_of n (fst (fetchNotes_settled st outcome))"
  by (simp add: fetchNotes_settled_def session_of_def split: settled.splits option.splits)

lemma session_handleSearch: "session_of n st \<Longrightarrow> session_of n (fst (handleSearch st))"
  by (simp add: handleSearch_def session_of_def)

lemma session_handleSearch_settled:
  "session_of n st \<Longrightarrow> session_of n (fst (handleSearch_settled st outcome))"
  by (simp add: handleSearch_settled_def session_of_def split: settled.splits option.splits)

lemma session_saveNote: "session_of n st \<Longrightarrow> session_of n (fst (saveNote st))"
  by (auto simp: saveNote_def session_of_def split: option.splits)

lemma session_saveNote_settled:
  "session_of n st \<Longrightarrow> session_of n (fst (saveNote_settled st outcome))"
  by (simp add: saveNote_settled_def fetchNotes_def session_of_def split: settled.splits)

lemma session_saveNote_refreshed: "session_of n (fst (saveNote_refreshed st outcome))"
  by (simp add: saveNote_refreshed_def closeModal_def session_of_def split: prod.splits)

lemma session_deleteNote: "session_of n st \<Longrightarrow> session_of n (fst (deleteNote i c st))"
  by (simp add: deleteNote_def)

lemma session_deleteNote_settled:
  "session_of n st \<Longrightarrow> session_of n (fst (deleteNote_settled st outcome))"
  by (simp add: deleteNote_settled_def fetchNotes_def session_of_def split: settled.splits)

lemma session_deleteNote_refreshed:
  "session_of n st \<Longrightarrow> session_of n (fst (deleteNote_refreshed st outcome))"
  by (simp add: deleteNote_refreshed_def session_fetchNotes_settled)

lemma session_closeModal: "session_of n (closeModal st)"
  by (simp add: closeModal_def session_of_def)

lemma session_openModal: "session_of n (openModal (Some n) st)"
  by (simp add: openModal_def session_of_def)

lemmas session_handlers =
  session_fetchNotes session_fetchNotes_settled session_handleSearch
  session_handleSearch_settled session_saveNote session_saveNote_settled
  session_saveNote_refreshed session_deleteNote session_deleteNote_settled
  session_deleteNote_refreshed session_closeModal

lemma session_resume:
  assumes "resume k r st = Some (k', res)" and "session_of n st"
  shows "session_of n (fst res)"
  using assms by (cases k; cases r) (auto simp: session_handlers)

lemma session_step:
  assumes "session_of n (app w)" and "\<not> opens_modal ev"
  shows "session_of n (app (step w ev))"
proof (cases ev)
  case (Deliver i r)
  show ?thesis
  proof (cases "i < length (pending w)")
    case False
    with Deliver assms show ?thesis by simp
  next
    case True
    show ?thesis
    proof (cases "resume (fst (pending w ! i)) r (app w)")
      case None
      with Deliver True assms show ?thesis by simp
    next
      case (Some kr)
      obtain k' res where kr: "kr = (k', res)" by (cases kr)
      from Some kr assms have "session_of n (fst res)" by (auto dest: session_resume)
      with Deliver True Some kr show ?thesis by (simp add: app_perform)
    qed
  qed
next
  case (ChangeTitle v)
  with assms show ?thesis by (simp add: session_of_def)
next
  case (ChangeTags v)
  with assms show ?thesis by (simp add: session_of_def)
next
  case (ChangeContent v)
  with assms show ?thesis by (simp add: session_of_def)
next
  case (ChangeIsPublic v)
  with assms show ?thesis by (simp add: session_of_def)
next
  case (ChangeSearchQuery v)
  with assms show ?thesis by (simp add: session_of_def)
next
  case (ChangeSearchType v)
  with assms show ?thesis by (simp add: session_of_def)
qed (use assms in \<open>auto simp: app_perform session_handlers\<close>)

subsection \<open>Runs from the initial world\<close>

lemma run_snoc: "run w (evs @ [ev]) = step (run w evs) ev"
  by (simp add: run_def)

lemma body_ok_run: "\<forall>e \<in> set (log (run initial_world evs)). body_ok e"
proof (induction evs rule: rev_induct)
  case Nil
  show ?case by (simp add: run_def initial_world_def)
next
  case (snoc ev evs)
  then show ?case unfolding run_snoc by (rule body_ok_step)
qed

lemma pinned_run: "version_pinned (app (run initial_world evs))"
proof (induction evs rule: rev_induct)
  case Nil
  show ?case by (simp add: run_def initial_world_def initial_state_def version_pinned_def)
next
  case (snoc ev evs)
  then show ?case unfolding run_snoc by (rule pinned_step)
qed

lemma session_events_run:
  "log (run initial_world session_events) =
     [Fetch POST NotesCollection (Some create_body),
      Fetch GET (NotesList 50) None,
      Fetch PUT (NoteItem 7) (Some update_body)]"
  "editingNote (app (run initial_world session_events)) = Some sample_note"
  "currentNote (app (run initial_world session_events)) =
     \<lparr>title = js ''Plan B'', content = js ''Buy milk'', is_public = False,
      tags = Some (js ''home''), version = 3\<rparr>"
  by (simp_all add: run_def session_events_def initial_world_def initial_state_def perform_def
      openModal_def closeModal_def saveNote_def saveNote_settled_def saveNote_refreshed_def
      fetchNotes_def fetchNotes_settled_def not_blank_samples ok_def rendered_notes_def
      stringify_currentNote_def json_of_tags_def create_body_def update_body_def
      sample_note_def)

lemma overlapping_searches_run:
  "run initial_world overlapping_searches =
     \<lparr>app = initial_state\<lparr>searchQuery := js ''milk tea'', isSearching := True\<rparr>,
      pending = [(K_handleSearch, Fetch POST SearchEndpoint (Some (search_body (js ''milk'')))),
                 (K_handleSearch, Fetch POST SearchEndpoint (Some (search_body (js ''milk tea''))))],
      log = [Fetch POST SearchEndpoint (Some (search_body (js ''milk''))),
             Fetch POST SearchEndpoint (Some (search_body (js ''milk tea'')))]\<rparr>"
  by (simp add: run_def overlapping_searches_def initial_world_def initial_state_def perform_def
      handleSearch_def not_blank_samples search_body_def)

lemma session_run:
  assumes "session_of n (app w)" and "\<forall>ev \<in> set evs. \<not> opens_modal ev"
  shows "session_of n (app (run w evs))"
  using assms(2)
proof (induction evs rule: rev_induct)
  case Nil
  show ?case using assms(1) by (simp add: run_def)
next
  case (snoc ev evs)
  then have "session_of n (app (run w evs))" and "\<not> opens_modal ev" by simp_all
  then show ?case unfolding run_snoc by (rule session_step)
qed

lemma session_saveNote_request:
  assumes "session_of n st" and "editingNote st \<noteq> None"
    and "trim (title (currentNote st)) \<noteq> []" and "trim (content (currentNote st)) \<noteq> []"
  shows "snd (saveNote st) =
            [Fetch PUT (NoteItem (note_id n))
               (Some [(''title'', JString (title (currentNote st))),
                      (''content'', JString (content (currentNote st))),
                      (''is_public'', JBool (is_public (currentNote st))),
                      (''tags'', json_of_tags (tags (currentNote st))),
                      (''version'', JNumber (version n))])]"
  using assms by (auto simp: saveNote_def stringify_currentNote_def session_of_def)

lemma refresh_during_edit_run:
  "app (run (initial_world\<lparr>app := openModal (Some sample_note) (app initial_world)\<rparr>)
        refresh_during_edit) =
     initial_state
       \<lparr>notes := [newer_note], editingNote := Some sample_note, isModalOpen := True,
        currentNote := \<lparr>title = js ''Plan B'', content = js ''Buy milk'', is_public = False,
                        tags = Some (js ''home''), version = 3\<rparr>\<rparr>"
  by (simp add: run_def refresh_during_edit_def initial_world_def initial_state_def perform_def
      openModal_def fetchNotes_def fetchNotes_settled_def ok_def sample_note_def)

section \<open>The claims\<close>

text \<open>
  Claim C1. When the save request of an edit session is answered with status 409,
  \<^verbatim>\<open>saveNote\<close> shows the conflict notice and only resets \<^verbatim>\<open>loading\<close>: the modal stays as it
  is, \<^verbatim>\<open>editingNote\<close> and \<^verbatim>\<open>currentNote\<close> are unchanged, the cached notes are unchanged and
  no list request is sent. The state is the one found when the response arrives, whatever
  happened while the request was in flight.
\<close>

theorem saveNote_conflict:
  assumes "status r = 409"
  shows "saveNote_settled st (Fulfilled r) =
           (st\<lparr>loading := False\<rparr>,
            [Alert ''Note was modified by another user. Please refresh and try again.''])
       \<and> isModalOpen (fst (saveNote_settled st (Fulfilled r))) = isModalOpen st
       \<and> editingNote (fst (saveNote_settled st (Fulfilled r))) = editingNote st
       \<and> currentNote (fst (saveNote_settled st (Fulfilled r))) = currentNote st
       \<and> notes (fst (saveNote_settled st (Fulfilled r))) = notes st
       \<and> \<not> loading (fst (saveNote_settled st (Fulfilled r)))
       \<and> filter is_Fetch (snd (saveNote_settled st (Fulfilled r))) = []"
  using assms by (simp add: saveNote_settled_def ok_def)

text \<open>Claim C1 on the edit session of \<open>sample_note\<close>: the modal is still open on that note.\<close>

theorem saveNote_conflict_witness:
  "status (Response 409 (None :: unit option)) = 409
   \<and> saveNote_settled editing_state (Fulfilled (Response 409 (None :: unit option))) =
       (editing_state\<lparr>loading := False\<rparr>,
        [Alert ''Note was modified by another user. Please refresh and try again.''])
   \<and> isModalOpen (fst (saveNote_settled editing_state (Fulfilled (Response 409 (None :: unit option)))))
   \<and> editingNote (fst (saveNote_settled editing_state (Fulfilled (Response 409 (None :: unit option)))))
       = Some sample_note"
  using saveNote_conflict [of "Response 409 (None :: unit option)" editing_state]
  by (simp add: editing_state_def openModal_def)

text \<open>
  Claim C2. When the title or the content of the draft is empty or consists of white space
  only, \<^verbatim>\<open>saveNote\<close> sends no request, shows the validation message and leaves the whole
  state as it was (modal, draft fields, \<^verbatim>\<open>editingNote\<close>).
\<close>

theorem saveNote_blank_field:
  assumes "(\<forall>c \<in> set (title (currentNote st)). is_whitespace c)
         \<or> (\<forall>c \<in> set (content (currentNote st)). is_whitespace c)"
  shows "saveNote st = (st, [Alert ''Please fill in both title and content''])
       \<and> filter is_Fetch (snd (saveNote st)) = []"
  using assms by (auto simp: saveNote_def trim_Nil_iff)

text \<open>Claim C2 on a draft whose title is two spaces.\<close>

theorem saveNote_blank_field_witness:
  "title (currentNote blank_title_state) = js ''  ''
   \<and> content (currentNote blank_title_state) = js ''body''
   \<and> saveNote blank_title_state
       = (blank_title_state, [Alert ''Please fill in both title and content''])"
proof -
  have h: "(\<forall>c \<in> set (title (currentNote blank_title_state)). is_whitespace c)
     \<or> (\<forall>c \<in> set (content (currentNote blank_title_state)). is_whitespace c)"
    by (simp add: blank_title_state_def js_def is_whitespace_def js_whitespace_def)
  have "title (currentNote blank_title_state) = js ''  ''
      \<and> content (currentNote blank_title_state) = js ''body''"
    by (simp add: blank_title_state_def)
  with saveNote_blank_field [OF h] show ?thesis by simp
qed

text \<open>
  Claim C3, as stated, fails. Two searches are started with the Enter key, for
  \<^verbatim>\<open>milk\<close> and then for \<^verbatim>\<open>milk tea\<close>; both requests are pending. The answer to the second
  arrives first, the answer to the first arrives last, and the displayed results are those
  of the first, stale, search.
\<close>

theorem stale_search_result_displayed:
  "map snd (pending (run initial_world overlapping_searches)) =
     [Fetch POST SearchEndpoint (Some (search_body (js ''milk''))),
      Fetch POST SearchEndpoint (Some (search_body (js ''milk tea'')))]
   \<and> searchResults (app (run initial_world
        (overlapping_searches @
           [Deliver 1 (SearchReply (Fulfilled (Response 200 (Some tea_results)))),
            Deliver 0 (SearchReply (Fulfilled (Response 200 (Some milk_results))))]))) = milk_results
   \<and> milk_results \<noteq> tea_results"
proof -
  have "run initial_world (overlapping_searches @
           [Deliver 1 (SearchReply (Fulfilled (Response 200 (Some tea_results)))),
            Deliver 0 (SearchReply (Fulfilled (Response 200 (Some milk_results))))])
      = step (step (run initial_world overlapping_searches)
           (Deliver 1 (SearchReply (Fulfilled (Response 200 (Some tea_results))))))
           (Deliver 0 (SearchReply (Fulfilled (Response 200 (Some milk_results)))))"
    by (simp add: run_def)
  then show ?thesis
    by (simp add: overlapping_searches_run perform_def handleSearch_settled_def ok_def
        milk_results_def tea_results_def sample_result_def)
qed

text \<open>
  Claim C3, amended. The state holds no generation counter and a completion is never
  discarded: whichever pending search request an answer with a 2xx status belongs to, the
  newest or an older one, its result list becomes the displayed results when it arrives.
  With overlapping searches the display shows the last successful completion to arrive.
\<close>

theorem search_completion_applied:
  assumes "i < length (pending w)" and "fst (pending w ! i) = K_handleSearch"
    and "ok r" and "json_body r = Some results"
  shows "searchResults (app (step w (Deliver i (SearchReply (Fulfilled r))))) = results
       \<and> handleSearch_settled st (Fulfilled r) =
           (st\<lparr>searchResults := results, isSearching := False\<rparr>, [])"
  using assms by (simp add: perform_def handleSearch_settled_def)

text \<open>Amended claim C3 on the older of the two pending searches.\<close>

theorem search_completion_applied_witness:
  "0 < length (pending (run initial_world overlapping_searches))
   \<and> fst (pending (run initial_world overlapping_searches) ! 0) = K_handleSearch
   \<and> ok (Response 200 (Some milk_results))
   \<and> json_body (Response 200 (Some milk_results)) = Some milk_results
   \<and> searchResults (app (step (run initial_world overlapping_searches)
        (Deliver 0 (SearchReply (Fulfilled (Response 200 (Some milk_results))))))) = milk_results"
proof -
  have h1: "0 < length (pending (run initial_world overlapping_searches))"
    by (simp add: overlapping_searches_run)
  have h2: "fst (pending (run initial_world overlapping_searches) ! 0) = K_handleSearch"
    by (simp add: overlapping_searches_run)
  have h3: "ok (Response 200 (Some milk_results))" by (simp add: ok_def)
  have h4: "json_body (Response 200 (Some milk_results)) = Some milk_results" by simp
  from search_completion_applied [OF h1 h2 h3 h4] h1 h2 h3 h4 show ?thesis by blast
qed

text \<open>
  Claim C4. After every successful create, update or delete (2xx status) the handler
  leaves the cache untouched and sends a fresh \<^verbatim>\<open>GET /notes?limit=50\<close>; the body of the
  mutation's response is never read, so the cache is never patched or merged with it. The
  list that this request delivers replaces the whole cache, whatever the cache held; when
  the list request itself fails, the cache keeps its prior content.
\<close>

theorem mutation_success_refreshes:
  assumes "ok r"
  shows "saveNote_settled st (Fulfilled r) = (st\<lparr>loading := True\<rparr>, [Fetch GET (NotesList 50) None])
       \<and> deleteNote_settled st (Fulfilled r) = (st\<lparr>loading := True\<rparr>, [Fetch GET (NotesList 50) None])
       \<and> notes (fst (saveNote_refreshed st' outcome)) =
           (case fetched_list outcome of Some data \<Rightarrow> data | None \<Rightarrow> notes st')
       \<and> notes (fst (deleteNote_refreshed st' outcome)) =
           (case fetched_list outcome of Some data \<Rightarrow> data | None \<Rightarrow> notes st')"
  using assms
  by (simp add: saveNote_settled_def deleteNote_settled_def fetchNotes_def saveNote_refreshed_def
      deleteNote_refreshed_def fetchNotes_settled_def closeModal_def fetched_list_def
      split: settled.splits option.splits)

text \<open>Claim C4 on the update of \<open>sample_note\<close>, with a list of two notes delivered.\<close>

theorem mutation_success_refreshes_witness:
  "ok (Response 200 (None :: unit option))
   \<and> saveNote_settled editing_state (Fulfilled (Response 200 (None :: unit option))) =
       (editing_state\<lparr>loading := True\<rparr>, [Fetch GET (NotesList 50) None])
   \<and> notes (fst (saveNote_refreshed editing_state
        (Fulfilled (Response 200 (Some [other_note, sample_note]))))) = [other_note, sample_note]"
proof -
  have h: "ok (Response 200 (None :: unit option))" by (simp add: ok_def)
  from mutation_success_refreshes [OF h, of editing_state editing_state
      "Fulfilled (Response 200 (Some [other_note, sample_note]))"] h
  show ?thesis by (simp add: fetched_list_def ok_def)
qed

text \<open>
  Claim C5. For a search query that is empty or consists of white space only,
  \<^verbatim>\<open>handleSearch\<close> sets the displayed results to the empty list and sends no request.
\<close>

theorem handleSearch_blank_query:
  assumes "\<forall>c \<in> set (searchQuery st). is_whitespace c"
  shows "handleSearch st = (st\<lparr>searchResults := []\<rparr>, [])
       \<and> searchResults (fst (handleSearch st)) = []
       \<and> filter is_Fetch (snd (handleSearch st)) = []"
  using assms by (simp add: handleSearch_def trim_Nil_iff)

text \<open>Claim C5 on a query of three spaces, with a result displayed before.\<close>

theorem handleSearch_blank_query_witness:
  "searchQuery blank_query_state = js ''   ''
   \<and> searchResults blank_query_state = [sample_result]
   \<and> handleSearch blank_query_state = (blank_query_state\<lparr>searchResults := []\<rparr>, [])
   \<and> searchResults (fst (handleSearch blank_query_state)) = []"
proof -
  have h: "\<forall>c \<in> set (searchQuery blank_query_state). is_whitespace c"
    by (simp add: blank_query_state_def js_def is_whitespace_def js_whitespace_def)
  have "searchQuery blank_query_state = js ''   ''
      \<and> searchResults blank_query_state = [sample_result]"
    by (simp add: blank_query_state_def)
  with handleSearch_blank_query [OF h] show ?thesis by simp
qed

text \<open>
  Claim C6, as stated, fails. The save request is answered with status 500: the handler
  resets \<^verbatim>\<open>loading\<close> and causes no effect at all, neither an alert nor a console message, so
  nothing is reported.
\<close>

theorem server_error_not_reported:
  "transport_error (Fulfilled (Response 500 (None :: unit option)))
   \<and> saveNote_settled editing_state (Fulfilled (Response 500 (None :: unit option)))
       = (editing_state\<lparr>loading := False\<rparr>, [])"
  by (simp add: ok_def saveNote_settled_def)

text \<open>
  Claim C6, amended. On a transport error of the list, save (create or update), delete or
  search request, no alert is shown: a network failure is written to the console only, and
  a non-2xx status other than 409 causes no message of any kind. The operation is
  abandoned, no request is sent again, and the state is the one found when the request
  settled (cache, displayed results, draft, modal), except that the list and save handlers
  reset \<^verbatim>\<open>loading\<close> and the search handler resets \<^verbatim>\<open>isSearching\<close>. The list request that
  follows a successful save is the one case where the draft goes: the save has succeeded,
  so the modal is closed, and a failure of that list request leaves cache and displayed
  results as they were.
\<close>

theorem transport_error_abandons:
  assumes "transport_error o1" and "transport_error o2" and "transport_error o3"
  shows "fetchNotes_settled st o1 =
           (st\<lparr>loading := False\<rparr>,
            if o1 = Rejected then [ConsoleError ''Failed to fetch notes:''] else [])
       \<and> handleSearch_settled st o2 =
           (st\<lparr>isSearching := False\<rparr>,
            if o2 = Rejected then [ConsoleError ''Search failed:''] else [])
       \<and> saveNote_settled st o3 =
           (st\<lparr>loading := False\<rparr>,
            if o3 = Rejected then [ConsoleError ''Failed to save note:''] else [])
       \<and> deleteNote_settled st o3 =
           (st, if o3 = Rejected then [ConsoleError ''Failed to delete note:''] else [])
       \<and> deleteNote_refreshed st o1 =
           (st\<lparr>loading := False\<rparr>,
            if o1 = Rejected then [ConsoleError ''Failed to fetch notes:''] else [])
       \<and> saveNote_refreshed st o1 =
           ((closeModal st)\<lparr>loading := False\<rparr>,
            if o1 = Rejected then [ConsoleError ''Failed to fetch notes:''] else [])
       \<and> notes (fst (saveNote_refreshed st o1)) = notes st
       \<and> searchResults (fst (saveNote_refreshed st o1)) = searchResults st"
  using assms
  by (cases o1; cases o2; cases o3)
     (simp_all add: fetchNotes_settled_def handleSearch_settled_def saveNote_settled_def
       deleteNote_settled_def deleteNote_refreshed_def saveNote_refreshed_def closeModal_def)

text \<open>
  Amended claim C6 on a rejected list request, a search answered with 503 and a save and a
  delete answered with 500.
\<close>

theorem transport_error_abandons_witness:
  "transport_error (Rejected :: Note list settled)
   \<and> transport_error (Fulfilled (Response 503 (None :: SearchResult list option)))
   \<and> transport_error (Fulfilled (Response 500 (None :: unit option)))
   \<and> fetchNotes_settled editing_state Rejected =
       (editing_state\<lparr>loading := False\<rparr>, [ConsoleError ''Failed to fetch notes:''])
   \<and> handleSearch_settled editing_state (Fulfilled (Response 503 None)) =
       (editing_state\<lparr>isSearching := False\<rparr>, [])
   \<and> saveNote_settled editing_state (Fulfilled (Response 500 (None :: unit option))) =
       (editing_state\<lparr>loading := False\<rparr>, [])
   \<and> deleteNote_settled editing_state (Fulfilled (Response 500 (None :: unit option))) =
       (editing_state, [])"
proof -
  have h1: "transport_error (Rejected :: Note list settled)" by simp
  have h2: "transport_error (Fulfilled (Response 503 (None :: SearchResult list option)))"
    by (simp add: ok_def)
  have h3: "transport_error (Fulfilled (Response 500 (None :: unit option)))"
    by (simp add: ok_def)
  from transport_error_abandons [OF h1 h2 h3, of editing_state] h1 h2 h3
  show ?thesis by simp
qed

text \<open>
  Claim C7. For a search result with at least two matched chunks the excerpt block shows
  exactly two rows, for the first and the second chunk: each is the first 100 code units of
  the chunk between quotes, with three dots appended. No other chunk is rendered.
\<close>

theorem render_excerpts_first_two:
  assumes "2 \<le> length (matched_chunks result)"
  shows "render_excerpts result =
           Some [js [CHR 0x22] @ take 100 (matched_chunks result ! 0) @ js ''...'' @ js [CHR 0x22],
                 js [CHR 0x22] @ take 100 (matched_chunks result ! 1) @ js ''...'' @ js [CHR 0x22]]"
proof -
  obtain a b rest where "matched_chunks result = a # b # rest"
    using assms by (cases "matched_chunks result"; cases "tl (matched_chunks result)") auto
  then show ?thesis
    by (simp add: render_excerpts_def render_chunk_def slice0_def substring0_def)
qed

text \<open>Claim C7 on a result with five chunks.\<close>

theorem render_excerpts_first_two_witness:
  "2 \<le> length (matched_chunks sample_result)
   \<and> length (matched_chunks sample_result) = 5
   \<and> render_excerpts sample_result =
       Some [js [CHR 0x22] @ js ''Buy milk...'' @ js [CHR 0x22],
             js [CHR 0x22] @ js ''milk and eggs...'' @ js [CHR 0x22]]"
  using render_excerpts_first_two [of sample_result]
  by (simp add: sample_result_def js_def)

text \<open>
  Claim C8. In every run from the initial state, no request body has a key
  \<^verbatim>\<open>view_count\<close>, and the body of every create request has exactly the keys \<^verbatim>\<open>title\<close>,
  \<^verbatim>\<open>content\<close>, \<^verbatim>\<open>is_public\<close>, \<^verbatim>\<open>tags\<close>, so no version. The version of an update is the one
  of modal-open time: once \<^verbatim>\<open>openModal\<close> has been called on a note \<open>n0\<close>, from any state,
  then after any events that do not call \<^verbatim>\<open>openModal\<close> again (edits of the fields, searches,
  reloads of the list that may bring a newer version of the note, deletes, saves and the
  delivery of any pending reply) the session is over or \<^verbatim>\<open>editingNote\<close> is still \<open>n0\<close> and the
  draft's version is still that of \<open>n0\<close>, and the update request that \<^verbatim>\<open>saveNote\<close> sends then
  goes to the id of \<open>n0\<close> with the draft's fields and the version of \<open>n0\<close>. A create session
  sends the four fields of the draft.
\<close>

theorem request_payloads:
  "(\<forall>m e b. Fetch m e (Some b) \<in> set (log (run initial_world evs))
       \<longrightarrow> ''view_count'' \<notin> fst ` set b)
   \<and> (\<forall>b. Fetch POST NotesCollection (Some b) \<in> set (log (run initial_world evs))
       \<longrightarrow> map fst b = [''title'', ''content'', ''is_public'', ''tags''])
   \<and> ((\<forall>ev \<in> set evs'. \<not> opens_modal ev) \<longrightarrow>
        (let s = app (run (w\<lparr>app := openModal (Some n0) (app w)\<rparr>) evs') in
           (editingNote s = None
            \<or> (editingNote s = Some n0 \<and> version (currentNote s) = version n0))
           \<and> (editingNote s \<noteq> None
                \<and> trim (title (currentNote s)) \<noteq> [] \<and> trim (content (currentNote s)) \<noteq> []
              \<longrightarrow> snd (saveNote s) =
                   [Fetch PUT (NoteItem (note_id n0))
                      (Some [(''title'', JString (title (currentNote s))),
                             (''content'', JString (content (currentNote s))),
                             (''is_public'', JBool (is_public (currentNote s))),
                             (''tags'', json_of_tags (tags (currentNote s))),
                             (''version'', JNumber (version n0))])])))
   \<and> (\<forall>n. editingNote (app (run initial_world evs)) = Some n
          \<and> trim (title (currentNote (app (run initial_world evs)))) \<noteq> []
          \<and> trim (content (currentNote (app (run initial_world evs)))) \<noteq> []
       \<longrightarrow> snd (saveNote (app (run initial_world evs))) =
            [Fetch PUT (NoteItem (note_id n))
               (Some [(''title'', JString (title (currentNote (app (run initial_world evs))))),
                      (''content'', JString (content (currentNote (app (run initial_world evs))))),
                      (''is_public'', JBool (is_public (currentNote (app (run initial_world evs))))),
                      (''tags'', json_of_tags (tags (currentNote (app (run initial_world evs))))),
                      (''version'', JNumber (version n))])])
   \<and> (editingNote st = None
          \<and> trim (title (currentNote st)) \<noteq> [] \<and> trim (content (currentNote st)) \<noteq> []
       \<longrightarrow> snd (saveNote st) =
            [Fetch POST NotesCollection
               (Some [(''title'', JString (title (currentNote st))),
                      (''content'', JString (content (currentNote st))),
                      (''is_public'', JBool (is_public (currentNote st))),
                      (''tags'', json_of_tags (tags (currentNote st)))])])
   \<and> editingNote (openModal (Some n0) st) = Some n0
   \<and> version (currentNote (openModal (Some n0) st)) = version n0"
proof -
  let ?w = "run initial_world evs"
  have ok: "\<forall>e \<in> set (log ?w). body_ok e" by (rule body_ok_run)
  have a: "\<forall>m e b. Fetch m e (Some b) \<in> set (log ?w) \<longrightarrow> ''view_count'' \<notin> fst ` set b"
  proof (intro allI impI)
    fix m e b assume "Fetch m e (Some b) \<in> set (log ?w)"
    with ok have "body_ok (Fetch m e (Some b))" by blast
    then show "''view_count'' \<notin> fst ` set b" by simp
  qed
  have b: "\<forall>b. Fetch POST NotesCollection (Some b) \<in> set (log ?w)
        \<longrightarrow> map fst b = [''title'', ''content'', ''is_public'', ''tags'']"
  proof (intro allI impI)
    fix b assume "Fetch POST NotesCollection (Some b) \<in> set (log ?w)"
    with ok have "body_ok (Fetch POST NotesCollection (Some b))" by blast
    then show "map fst b = [''title'', ''content'', ''is_public'', ''tags'']" by simp
  qed
  let ?s = "app (run (w\<lparr>app := openModal (Some n0) (app w)\<rparr>) evs')"
  have f: "(\<forall>ev \<in> set evs'. \<not> opens_modal ev) \<longrightarrow>
        (let s = ?s in
           (editingNote s = None
            \<or> (editingNote s = Some n0 \<and> version (currentNote s) = version n0))
           \<and> (editingNote s \<noteq> None
                \<and> trim (title (currentNote s)) \<noteq> [] \<and> trim (content (currentNote s)) \<noteq> []
              \<longrightarrow> snd (saveNote s) =
                   [Fetch PUT (NoteItem (note_id n0))
                      (Some [(''title'', JString (title (currentNote s))),
                             (''content'', JString (content (currentNote s))),
                             (''is_public'', JBool (is_public (currentNote s))),
                             (''tags'', json_of_tags (tags (currentNote s))),
                             (''version'', JNumber (version n0))])]))"
  proof
    assume quiet: "\<forall>ev \<in> set evs'. \<not> opens_modal ev"
    have "session_of n0 (app (w\<lparr>app := openModal (Some n0) (app w)\<rparr>))"
      by (simp add: session_openModal)
    then have ses: "session_of n0 ?s" using quiet by (rule session_run)
    then have 1: "editingNote ?s = None
        \<or> (editingNote ?s = Some n0 \<and> version (currentNote ?s) = version n0)"
      by (simp add: session_of_def)
    have 2: "editingNote ?s \<noteq> None
                \<and> trim (title (currentNote ?s)) \<noteq> [] \<and> trim (content (currentNote ?s)) \<noteq> []
              \<longrightarrow> snd (saveNote ?s) =
                   [Fetch PUT (NoteItem (note_id n0))
                      (Some [(''title'', JString (title (currentNote ?s))),
                             (''content'', JString (content (currentNote ?s))),
                             (''is_public'', JBool (is_public (currentNote ?s))),
                             (''tags'', json_of_tags (tags (currentNote ?s))),
                             (''version'', JNumber (version n0))])]"
      using ses by (blast intro: session_saveNote_request)
    from 1 2 show "let s = ?s in
           (editingNote s = None
            \<or> (editingNote s = Some n0 \<and> version (currentNote s) = version n0))
           \<and> (editingNote s \<noteq> None
                \<and> trim (title (currentNote s)) \<noteq> [] \<and> trim (content (currentNote s)) \<noteq> []
              \<longrightarrow> snd (saveNote s) =
                   [Fetch PUT (NoteItem (note_id n0))
                      (Some [(''title'', JString (title (currentNote s))),
                             (''content'', JString (content (currentNote s))),
                             (''is_public'', JBool (is_public (currentNote s))),
                             (''tags'', json_of_tags (tags (currentNote s))),
                             (''version'', JNumber (version n0))])])"
      unfolding Let_def by (rule conjI)
  qed
  have pin: "version_pinned (app ?w)" by (rule pinned_run)
  have c: "\<forall>n. editingNote (app ?w) = Some n
          \<and> trim (title (currentNote (app ?w))) \<noteq> []
          \<and> trim (content (currentNote (app ?w))) \<noteq> []
       \<longrightarrow> snd (saveNote (app ?w)) =
            [Fetch PUT (NoteItem (note_id n))
               (Some [(''title'', JString (title (currentNote (app ?w)))),
                      (''content'', JString (content (currentNote (app ?w)))),
                      (''is_public'', JBool (is_public (currentNote (app ?w)))),
                      (''tags'', json_of_tags (tags (currentNote (app ?w)))),
                      (''version'', JNumber (version n))])]"
    using pin by (auto simp: saveNote_def stringify_currentNote_def version_pinned_def)
  have d: "editingNote st = None
          \<and> trim (title (currentNote st)) \<noteq> [] \<and> trim (content (currentNote st)) \<noteq> []
       \<longrightarrow> snd (saveNote st) =
            [Fetch POST NotesCollection
               (Some [(''title'', JString (title (currentNote st))),
                      (''content'', JString (content (currentNote st))),
                      (''is_public'', JBool (is_public (currentNote st))),
                      (''tags'', json_of_tags (tags (currentNote st)))])]"
    by (simp add: saveNote_def)
  have e: "editingNote (openModal (Some n0) st) = Some n0
     \<and> version (currentNote (openModal (Some n0) st)) = version n0"
    by (simp add: openModal_def)
  from a b f c d e show ?thesis by (intro conjI) (rule, rule, rule, rule, rule, simp_all)
qed

text \<open>
  Claim C8 on two runs. In \<open>session_events\<close> a create request and an update request are in
  the log. In \<open>refresh_during_edit\<close> the session on \<open>sample_note\<close>, opened at version 3, sees
  the list reloaded with the note at version 4; the cache holds version 4 and the update
  still carries version 3.
\<close>

theorem request_payloads_witness:
  "Fetch PUT (NoteItem 7) (Some update_body) \<in> set (log (run initial_world session_events))
   \<and> Fetch POST NotesCollection (Some create_body) \<in> set (log (run initial_world session_events))
   \<and> ''view_count'' \<notin> fst ` set update_body
   \<and> map fst create_body = [''title'', ''content'', ''is_public'', ''tags'']
   \<and> version sample_note = 3
   \<and> notes (app (run (initial_world\<lparr>app := openModal (Some sample_note) (app initial_world)\<rparr>)
        refresh_during_edit)) = [newer_note]
   \<and> version newer_note = 4
   \<and> editingNote (app (run (initial_world\<lparr>app := openModal (Some sample_note) (app initial_world)\<rparr>)
        refresh_during_edit)) = Some sample_note
   \<and> snd (saveNote (app (run (initial_world\<lparr>app := openModal (Some sample_note) (app initial_world)\<rparr>)
        refresh_during_edit))) = [Fetch PUT (NoteItem 7) (Some update_body)]
   \<and> editingNote (app (run initial_world session_events)) = Some sample_note
   \<and> snd (saveNote (app (run initial_world session_events))) =
       [Fetch PUT (NoteItem 7) (Some update_body)]
   \<and> editingNote create_state = None
   \<and> snd (saveNote create_state) = [Fetch POST NotesCollection (Some create_body)]"
proof -
  let ?w = "run initial_world session_events"
  let ?s = "app (run (initial_world\<lparr>app := openModal (Some sample_note) (app initial_world)\<rparr>)
        refresh_during_edit)"
  have put_in: "Fetch PUT (NoteItem 7) (Some update_body) \<in> set (log ?w)"
    by (simp add: session_events_run)
  have post_in: "Fetch POST NotesCollection (Some create_body) \<in> set (log ?w)"
    by (simp add: session_events_run)
  have quiet: "\<forall>ev \<in> set refresh_during_edit. \<not> opens_modal ev"
    by (simp add: refresh_during_edit_def)
  have open_s: "editingNote ?s \<noteq> None
      \<and> trim (title (currentNote ?s)) \<noteq> [] \<and> trim (content (currentNote ?s)) \<noteq> []"
    by (simp add: refresh_during_edit_run not_blank_samples)
  have ed: "editingNote (app ?w) = Some sample_note
      \<and> trim (title (currentNote (app ?w))) \<noteq> []
      \<and> trim (content (currentNote (app ?w))) \<noteq> []"
    by (simp add: session_events_run not_blank_samples)
  have cr: "editingNote create_state = None
      \<and> trim (title (currentNote create_state)) \<noteq> []
      \<and> trim (content (currentNote create_state)) \<noteq> []"
    by (simp add: create_state_def openModal_def not_blank_samples)
  note inst = request_payloads [where evs = session_events and evs' = refresh_during_edit
      and w = initial_world and ?n0.0 = sample_note and st = create_state, unfolded Let_def]
  from inst put_in have 1: "''view_count'' \<notin> fst ` set update_body" by blast
  from inst post_in have 2: "map fst create_body = [''title'', ''content'', ''is_public'', ''tags'']"
    by blast
  from inst quiet open_s
  have frozen: "editingNote ?s = Some sample_note \<and> version (currentNote ?s) = version sample_note"
    by blast
  from inst quiet open_s have "snd (saveNote ?s) =
            [Fetch PUT (NoteItem (note_id sample_note))
               (Some [(''title'', JString (title (currentNote ?s))),
                      (''content'', JString (content (currentNote ?s))),
                      (''is_public'', JBool (is_public (currentNote ?s))),
                      (''tags'', json_of_tags (tags (currentNote ?s))),
                      (''version'', JNumber (version sample_note))])]"
    by blast
  then have "snd (saveNote ?s) =
            [Fetch PUT (NoteItem (note_id sample_note))
               (Some [(''title'', JString (js ''Plan B'')),
                      (''content'', JString (js ''Buy milk'')),
                      (''is_public'', JBool False),
                      (''tags'', JString (js ''home'')),
                      (''version'', JNumber (version sample_note))])]"
    by (simp add: refresh_during_edit_run json_of_tags_def)
  then have 3: "snd (saveNote ?s) = [Fetch PUT (NoteItem 7) (Some update_body)]"
    by (simp add: update_body_def sample_note_def)
  have "notes ?s = [newer_note]"
    by (simp add: refresh_during_edit_run)
  moreover have "version newer_note = 4 \<and> version sample_note = 3"
    by (simp add: newer_note_def sample_note_def)
  ultimately
  have 4: "notes ?s = [newer_note] \<and> version newer_note = 4 \<and> version sample_note = 3"
    by blast
  from inst ed have "snd (saveNote (app ?w)) =
            [Fetch PUT (NoteItem (note_id sample_note))
               (Some [(''title'', JString (title (currentNote (app ?w)))),
                      (''content'', JString (content (currentNote (app ?w)))),
                      (''is_public'', JBool (is_public (currentNote (app ?w)))),
                      (''tags'', json_of_tags (tags (currentNote (app ?w)))),
                      (''version'', JNumber (version sample_note))])]"
    by blast
  then have 5: "snd (saveNote (app ?w)) = [Fetch PUT (NoteItem 7) (Some update_body)]"
    by (simp add: session_events_run update_body_def json_of_tags_def sample_note_def)
  from inst cr have "snd (saveNote create_state) =
            [Fetch POST NotesCollection
               (Some [(''title'', JString (title (currentNote create_state))),
                      (''content'', JString (content (currentNote create_state))),
                      (''is_public'', JBool (is_public (currentNote create_state))),
                      (''tags'', json_of_tags (tags (currentNote create_state)))])]"
    by blast
  then have 6: "snd (saveNote create_state) = [Fetch POST NotesCollection (Some create_body)]"
    by (simp add: create_state_def create_body_def json_of_tags_def)
  from put_in post_in frozen ed cr 1 2 3 4 5 6 show ?thesis by blast
qed

text \<open>
  Claim C9. When a search on a query that is not blank fails (the request is rejected or
  the status is not 2xx), the displayed results are those shown before the search started;
  more generally the part of \<^verbatim>\<open>handleSearch\<close> that runs after a failed request leaves the
  displayed results of the state it finds unchanged.
\<close>

theorem handleSearch_failure_keeps_results:
  assumes "trim (searchQuery st) \<noteq> []" and "failed outcome"
  shows "searchResults (fst (handleSearch_settled (fst (handleSearch st)) outcome)) = searchResults st
       \<and> searchResults (fst (handleSearch_settled st' outcome)) = searchResults st'"
  using assms by (cases outcome) (simp_all add: handleSearch_def handleSearch_settled_def)

text \<open>Claim C9 on the query \<^verbatim>\<open>milk\<close> answered with status 500, with one result displayed.\<close>

theorem handleSearch_failure_keeps_results_witness:
  "trim (searchQuery query_state) \<noteq> []
   \<and> failed (Fulfilled (Response 500 (None :: SearchResult list option)))
   \<and> searchResults (fst (handleSearch_settled (fst (handleSearch query_state))
        (Fulfilled (Response 500 None)))) = [sample_result]"
proof -
  have h1: "trim (searchQuery query_state) \<noteq> []"
    by (simp add: query_state_def not_blank_samples)
  have h2: "failed (Fulfilled (Response 500 (None :: SearchResult list option)))"
    by (simp add: ok_def)
  show ?thesis
    using h1 h2 handleSearch_failure_keeps_results [OF h1 h2, of query_state]
    by (simp add: query_state_def)
qed

text \<open>
  Claim C10. After \<^verbatim>\<open>closeModal\<close>, called by the cancel and close buttons and at the end of
  a successful save, \<^verbatim>\<open>editingNote\<close> is null, the draft is the default draft (empty title,
  content and tags, not public, version 1) and the modal is closed. \<^verbatim>\<open>openModal()\<close> without
  a note starts from the same default draft whatever the state before, so no field of an
  earlier session shows up in a create session.
\<close>

theorem closeModal_resets_session:
  "editingNote (closeModal st) = None
   \<and> currentNote (closeModal st) =
       \<lparr>title = [], content = [], is_public = False, tags = Some [], version = 1\<rparr>
   \<and> \<not> isModalOpen (closeModal st)
   \<and> editingNote (fst (saveNote_refreshed st outcome)) = None
   \<and> currentNote (fst (saveNote_refreshed st outcome)) =
       \<lparr>title = [], content = [], is_public = False, tags = Some [], version = 1\<rparr>
   \<and> \<not> isModalOpen (fst (saveNote_refreshed st outcome))
   \<and> editingNote (openModal None st') = None
   \<and> currentNote (openModal None st') =
       \<lparr>title = [], content = [], is_public = False, tags = Some [], version = 1\<rparr>
   \<and> isModalOpen (openModal None st')"
  by (simp add: closeModal_def openModal_def saveNote_refreshed_def split: prod.splits)

end
